theory Spec2Isabelle
  imports Complex_Main "HOL-Library.Multiset" "HOL-Library.Log_Nat"
begin

section \<open>Numbers\<close>

text \<open>
  The front end is TypeScript; every \<^verbatim>\<open>number\<close> is an IEEE-754 binary64 value. A finite
  binary64 value is a rational number, so a \<^verbatim>\<open>number\<close> field is modelled by its exact
  value in \<^typ>\<open>rat\<close>; NaN and the infinities are outside the model (JSON cannot carry
  them). Comparison of finite values is the comparison of rationals. Counters and list
  indices (\<^verbatim>\<open>currentStep\<close>, \<^verbatim>\<open>totalSteps\<close>) only ever hold small integers, on which
  \<^verbatim>\<open>+ 1\<close>, \<^verbatim>\<open>- 1\<close>, \<^verbatim>\<open>Math.min\<close> and \<^verbatim>\<open>Math.max\<close> are exact; they are modelled in \<^typ>\<open>int\<close>.
\<close>

type_synonym number = rat

section \<open>api/types.ts: investigation types\<close>

datatype TracingMode = Deterministic | Probabilistic

record TracebackStep =
  stepIndex :: int
  currentNodeId :: string
  currentTlc :: string
  probability :: number
  mode :: TracingMode
  pathSoFar :: "string list"
  branchingFactor :: number

record ConvergenceResult =
  farmId :: string
  farmName :: string
  casesConverging :: number
  tlcsConverging :: "string list"
  convergenceProbability :: number
  confidenceScore :: number

section \<open>store/investigationStore.ts\<close>

datatype AnimationMode = ModeDeterministic | ModeProbabilistic | ModeSplit

record InvestigationStore =
  isPlaying :: bool
  currentStep :: int
  totalSteps :: int
  playbackSpeed :: number
  deterministicSteps :: "TracebackStep list"
  probabilisticSteps :: "TracebackStep list"
  activeMode :: AnimationMode
  convergenceResults :: "ConvergenceResult list"
  actualSourceFarmId :: "string option"

text \<open>The initial state of \<^verbatim>\<open>useInvestigationStore\<close>.\<close>

definition initialInvestigationStore :: InvestigationStore where
  "initialInvestigationStore =
     \<lparr> isPlaying = False, currentStep = 0, totalSteps = 0, playbackSpeed = 500,
       deterministicSteps = [], probabilisticSteps = [], activeMode = ModeSplit,
       convergenceResults = [], actualSourceFarmId = None \<rparr>"

text \<open>The argument object of \<^verbatim>\<open>loadInvestigationData\<close>.\<close>

record InvestigationData =
  dataDeterministicSteps :: "TracebackStep list"
  dataProbabilisticSteps :: "TracebackStep list"
  dataActualSourceFarmId :: "string option"

definition loadInvestigationData :: "InvestigationData \<Rightarrow> InvestigationStore \<Rightarrow> InvestigationStore" where
  "loadInvestigationData d s =
     s\<lparr> deterministicSteps := dataDeterministicSteps d,
        probabilisticSteps := dataProbabilisticSteps d,
        actualSourceFarmId := dataActualSourceFarmId d,
        totalSteps := max (int (length (dataDeterministicSteps d)))
                          (int (length (dataProbabilisticSteps d))),
        currentStep := 0,
        isPlaying := False \<rparr>"

text \<open>
  \<^verbatim>\<open>Array.prototype.sort(compareFn)\<close>: since ECMAScript 2019 the sort is stable, and
  \<^verbatim>\<open>a\<close> is placed before \<^verbatim>\<open>b\<close> when \<^verbatim>\<open>compareFn(a, b) < 0\<close>. With a comparator that
  is a consistent ordering the result is the stable sort, here written as insertion of
  each element, from the last to the first, before the first element it does not exceed.
\<close>

fun insertBy :: "('a \<Rightarrow> 'a \<Rightarrow> number) \<Rightarrow> 'a \<Rightarrow> 'a list \<Rightarrow> 'a list" where
  "insertBy cmp a [] = [a]"
| "insertBy cmp a (b # bs) = (if cmp a b \<le> 0 then a # b # bs else b # insertBy cmp a bs)"

definition arraySort :: "('a \<Rightarrow> 'a \<Rightarrow> number) \<Rightarrow> 'a list \<Rightarrow> 'a list" where
  "arraySort cmp xs = foldr (insertBy cmp) xs []"

text \<open>The comparator \<^verbatim>\<open>(a, b) => b.confidenceScore - a.confidenceScore\<close>.\<close>

definition byConfidenceDesc :: "ConvergenceResult \<Rightarrow> ConvergenceResult \<Rightarrow> number" where
  "byConfidenceDesc a b = confidenceScore b - confidenceScore a"

definition setConvergenceResults :: "ConvergenceResult list \<Rightarrow> InvestigationStore \<Rightarrow> InvestigationStore" where
  "setConvergenceResults results s = s\<lparr> convergenceResults := arraySort byConfidenceDesc results \<rparr>"

definition play :: "InvestigationStore \<Rightarrow> InvestigationStore" where
  "play s = s\<lparr> isPlaying := True \<rparr>"

definition pause :: "InvestigationStore \<Rightarrow> InvestigationStore" where
  "pause s = s\<lparr> isPlaying := False \<rparr>"

definition stepForward :: "InvestigationStore \<Rightarrow> InvestigationStore" where
  "stepForward s = s\<lparr> currentStep := min (currentStep s + 1) (totalSteps s - 1) \<rparr>"

definition stepBackward :: "InvestigationStore \<Rightarrow> InvestigationStore" where
  "stepBackward s = s\<lparr> currentStep := max (currentStep s - 1) 0 \<rparr>"

definition goToStep :: "int \<Rightarrow> InvestigationStore \<Rightarrow> InvestigationStore" where
  "goToStep step s = s\<lparr> currentStep := max 0 (min step (totalSteps s - 1)) \<rparr>"

definition setPlaybackSpeed :: "number \<Rightarrow> InvestigationStore \<Rightarrow> InvestigationStore" where
  "setPlaybackSpeed speed s = s\<lparr> playbackSpeed := speed \<rparr>"

definition setActiveMode :: "AnimationMode \<Rightarrow> InvestigationStore \<Rightarrow> InvestigationStore" where
  "setActiveMode m s = s\<lparr> activeMode := m \<rparr>"

definition reset :: "InvestigationStore \<Rightarrow> InvestigationStore" where
  "reset s = s\<lparr> currentStep := 0, isPlaying := False \<rparr>"

definition clear :: "InvestigationStore \<Rightarrow> InvestigationStore" where
  "clear s =
     s\<lparr> isPlaying := False, currentStep := 0, totalSteps := 0,
        deterministicSteps := [], probabilisticSteps := [],
        convergenceResults := [], actualSourceFarmId := None \<rparr>"

text \<open>The store actions that move the animation cursor, and a run of such actions.\<close>

datatype InvestigationAction =
    LoadInvestigationData InvestigationData
  | StepForward
  | StepBackward
  | GoToStep int
  | Reset

fun dispatch :: "InvestigationAction \<Rightarrow> InvestigationStore \<Rightarrow> InvestigationStore" where
  "dispatch (LoadInvestigationData d) s = loadInvestigationData d s"
| "dispatch StepForward s = stepForward s"
| "dispatch StepBackward s = stepBackward s"
| "dispatch (GoToStep step) s = goToStep step s"
| "dispatch Reset s = reset s"

fun dispatchAll :: "InvestigationAction list \<Rightarrow> InvestigationStore \<Rightarrow> InvestigationStore" where
  "dispatchAll [] s = s"
| "dispatchAll (a # as) s = dispatchAll as (dispatch a s)"

text \<open>The range the animation cursor is meant to stay in.\<close>

definition stepInRange :: "InvestigationStore \<Rightarrow> bool" where
  "stepInRange s \<longleftrightarrow> 0 \<le> currentStep s \<and> currentStep s \<le> max 0 (totalSteps s - 1)"

section \<open>Binary64 arithmetic\<close>

text \<open>
  Where the code computes with \<^verbatim>\<open>/\<close> and \<^verbatim>\<open>*\<close> the result is the exact result rounded
  to the nearest binary64 value, ties to the even significand (IEEE 754, which
  ECMAScript prescribes). \<open>binary64\<close> is that rounding on the finite range: the
  significand has 53 bits, the least exponent of the unit in the last place is
  \<open>- 1074\<close>. Overflow to an infinity (results of magnitude \<open>2 ^ 1024\<close> and beyond) is
  outside the model.
\<close>

definition roundHalfEven :: "rat \<Rightarrow> int" where
  "roundHalfEven q =
     (let f = \<lfloor>q\<rfloor>; r = q - of_int f
      in if r < 1 / 2 then f else if 1 / 2 < r then f + 1 else if even f then f else f + 1)"

text \<open>The integer \<open>k\<close> with \<open>2 ^ k \<le> a < 2 ^ (k + 1)\<close>, for positive \<open>a\<close>.\<close>

definition floorLog2 :: "rat \<Rightarrow> int" where
  "floorLog2 a =
     (let (n, d) = quotient_of a; k = bitlen n - bitlen d
      in if 2 powi k \<le> a then k else k - 1)"

definition binary64 :: "rat \<Rightarrow> number" where
  "binary64 q =
     (if q = 0 then 0
      else let a = \<bar>q\<bar>;
               e = max (floorLog2 a) (- 1022) - 52;
               m = roundHalfEven (a / 2 powi e)
           in sgn q * of_int m * 2 powi e)"

text \<open>The operators \<^verbatim>\<open>a / b\<close> (for a divisor other than zero) and \<^verbatim>\<open>a * b\<close>.\<close>

definition fdiv :: "number \<Rightarrow> number \<Rightarrow> number" where
  "fdiv a b = binary64 (a / b)"

definition fmul :: "number \<Rightarrow> number \<Rightarrow> number" where
  "fmul a b = binary64 (a * b)"

section \<open>api/types.ts: configuration types\<close>

datatype InventoryStrategy = FIFO | LIFO | ALL_IN_WINDOW | INVENTORY_WEIGHTED

record SimulationConfig =
  numFarms :: number
  numPackers :: number
  numDistributionCenters :: number
  numRetailers :: number
  retailersWithDelisPct :: number
  contaminationRate :: number
  contaminationDurationDays :: number
  pathogen :: string
  inventoryStrategy :: InventoryStrategy
  dateWindowDays :: number
  simulationDays :: number
  randomSeed :: "number option"
  interviewSuccessRate :: number
  recordCollectionWindowDays :: number
  numInvestigators :: number
  transitSpeedFactor :: number
  coolingHoldHours :: number
  dcInspectionHours :: number
  retailStockingDelayHours :: number

text \<open>
  \<^verbatim>\<open>MonteCarloConfig\<close> repeats thirteen field names of \<^verbatim>\<open>SimulationConfig\<close>; from here
  on the plain names are the Monte Carlo fields and the simulation fields are written
  \<open>SimulationConfig.numFarms\<close> and so on.
\<close>

record MonteCarloConfig =
  numFarms :: number
  numPackers :: number
  numDistributionCenters :: number
  numRetailers :: number
  retailersWithDelisPct :: number
  contaminationRate :: number
  contaminationDurationDays :: number
  pathogen :: string
  inventoryStrategy :: InventoryStrategy
  dateWindowDays :: number
  simulationDays :: number
  interviewSuccessRate :: number
  recordCollectionWindowDays :: number
  numIterations :: number
  baseRandomSeed :: "number option"

text \<open>
  \<^verbatim>\<open>Partial<MonteCarloConfig>\<close>: every property may be absent. \<open>None\<close> is an absent
  property; the property \<^verbatim>\<open>baseRandomSeed\<close> is itself \<^verbatim>\<open>number | null\<close>, so when present
  it carries an optional number.
\<close>

record PartialMonteCarloConfig =
  optNumFarms :: "number option"
  optNumPackers :: "number option"
  optNumDistributionCenters :: "number option"
  optNumRetailers :: "number option"
  optRetailersWithDelisPct :: "number option"
  optContaminationRate :: "number option"
  optContaminationDurationDays :: "number option"
  optPathogen :: "string option"
  optInventoryStrategy :: "InventoryStrategy option"
  optDateWindowDays :: "number option"
  optSimulationDays :: "number option"
  optInterviewSuccessRate :: "number option"
  optRecordCollectionWindowDays :: "number option"
  optNumIterations :: "number option"
  optBaseRandomSeed :: "number option option"

definition emptyPartial :: PartialMonteCarloConfig where
  "emptyPartial =
     \<lparr> optNumFarms = None, optNumPackers = None, optNumDistributionCenters = None,
       optNumRetailers = None, optRetailersWithDelisPct = None, optContaminationRate = None,
       optContaminationDurationDays = None, optPathogen = None, optInventoryStrategy = None,
       optDateWindowDays = None, optSimulationDays = None, optInterviewSuccessRate = None,
       optRecordCollectionWindowDays = None, optNumIterations = None,
       optBaseRandomSeed = None \<rparr>"

text \<open>The object spread \<^verbatim>\<open>{ ...config, ...partial }\<close>: a present property of \<^verbatim>\<open>partial\<close> wins.\<close>

definition orElse :: "'a option \<Rightarrow> 'a \<Rightarrow> 'a" where
  "orElse p d = (case p of Some v \<Rightarrow> v | None \<Rightarrow> d)"

definition spread :: "MonteCarloConfig \<Rightarrow> PartialMonteCarloConfig \<Rightarrow> MonteCarloConfig" where
  "spread c p =
     \<lparr> numFarms = orElse (optNumFarms p) (numFarms c),
       numPackers = orElse (optNumPackers p) (numPackers c),
       numDistributionCenters = orElse (optNumDistributionCenters p) (numDistributionCenters c),
       numRetailers = orElse (optNumRetailers p) (numRetailers c),
       retailersWithDelisPct = orElse (optRetailersWithDelisPct p) (retailersWithDelisPct c),
       contaminationRate = orElse (optContaminationRate p) (contaminationRate c),
       contaminationDurationDays =
         orElse (optContaminationDurationDays p) (contaminationDurationDays c),
       pathogen = orElse (optPathogen p) (pathogen c),
       inventoryStrategy = orElse (optInventoryStrategy p) (inventoryStrategy c),
       dateWindowDays = orElse (optDateWindowDays p) (dateWindowDays c),
       simulationDays = orElse (optSimulationDays p) (simulationDays c),
       interviewSuccessRate = orElse (optInterviewSuccessRate p) (interviewSuccessRate c),
       recordCollectionWindowDays =
         orElse (optRecordCollectionWindowDays p) (recordCollectionWindowDays c),
       numIterations = orElse (optNumIterations p) (numIterations c),
       baseRandomSeed = orElse (optBaseRandomSeed p) (baseRandomSeed c) \<rparr>"

section \<open>api/monteCarlo.ts\<close>

text \<open>The request body built by \<^verbatim>\<open>toApiConfig\<close>, and the \<^verbatim>\<open>config\<close> object of a result payload.\<close>

record ApiConfig =
  num_farms :: number
  num_packers :: number
  num_distribution_centers :: number
  num_retailers :: number
  retailers_with_delis_pct :: number
  contamination_rate :: number
  contamination_duration_days :: number
  api_pathogen :: string
  inventory_strategy :: InventoryStrategy
  date_window_days :: number
  simulation_days :: number
  interview_success_rate :: number
  record_collection_window_days :: number
  num_iterations :: number
  base_random_seed :: "number option"

definition toApiConfig :: "MonteCarloConfig \<Rightarrow> ApiConfig" where
  "toApiConfig c =
     \<lparr> num_farms = numFarms c,
       num_packers = numPackers c,
       num_distribution_centers = numDistributionCenters c,
       num_retailers = numRetailers c,
       retailers_with_delis_pct = retailersWithDelisPct c,
       contamination_rate = contaminationRate c,
       contamination_duration_days = contaminationDurationDays c,
       api_pathogen = pathogen c,
       inventory_strategy = inventoryStrategy c,
       date_window_days = dateWindowDays c,
       simulation_days = simulationDays c,
       interview_success_rate = fdiv (interviewSuccessRate c) 100,
       record_collection_window_days = recordCollectionWindowDays c,
       num_iterations = numIterations c,
       base_random_seed = baseRandomSeed c \<rparr>"

text \<open>The \<^verbatim>\<open>config\<close> property of the object returned by \<^verbatim>\<open>monteCarloApi.getResult\<close>.\<close>

definition getResultConfig :: "ApiConfig \<Rightarrow> MonteCarloConfig" where
  "getResultConfig a =
     \<lparr> numFarms = num_farms a,
       numPackers = num_packers a,
       numDistributionCenters = num_distribution_centers a,
       numRetailers = num_retailers a,
       retailersWithDelisPct = retailers_with_delis_pct a,
       contaminationRate = contamination_rate a,
       contaminationDurationDays = contamination_duration_days a,
       pathogen = api_pathogen a,
       inventoryStrategy = inventory_strategy a,
       dateWindowDays = date_window_days a,
       simulationDays = simulation_days a,
       interviewSuccessRate = fmul (interview_success_rate a) 100,
       recordCollectionWindowDays = record_collection_window_days a,
       numIterations = num_iterations a,
       baseRandomSeed = base_random_seed a \<rparr>"

section \<open>store/configStore.ts\<close>

record AppConfig =
  maxMonteCarloIterations :: number
  defaultMonteCarloIterations :: number
  monteCarloEnabled :: bool

record ConfigStore =
  config :: "AppConfig option"
  isLoading :: bool
  error :: "string option"

definition DEFAULT_CONFIG :: AppConfig where
  "DEFAULT_CONFIG =
     \<lparr> maxMonteCarloIterations = 10000, defaultMonteCarloIterations = 1000,
       monteCarloEnabled = True \<rparr>"

definition initialConfigStore :: ConfigStore where
  "initialConfigStore = \<lparr> config = None, isLoading = False, error = None \<rparr>"

text \<open>
  \<^verbatim>\<open>fetchConfig\<close>, from its call to the settling of \<^verbatim>\<open>configApi.getConfig()\<close>: the
  argument is the server's answer, \<open>None\<close> when the request fails.
\<close>

definition fetchConfig :: "AppConfig option \<Rightarrow> ConfigStore \<Rightarrow> ConfigStore" where
  "fetchConfig response s =
     (if ConfigStore.config s \<noteq> None then s
      else case response of
             Some c \<Rightarrow> s\<lparr> ConfigStore.config := Some c, isLoading := False, error := None \<rparr>
           | None \<Rightarrow> s\<lparr> ConfigStore.config := Some DEFAULT_CONFIG, isLoading := False,
                        error := None \<rparr>)"

definition selectMaxMonteCarloIterations :: "ConfigStore \<Rightarrow> number" where
  "selectMaxMonteCarloIterations s =
     (case ConfigStore.config s of
        Some c \<Rightarrow> maxMonteCarloIterations c
      | None \<Rightarrow> maxMonteCarloIterations DEFAULT_CONFIG)"

section \<open>store/monteCarloStore.ts\<close>

datatype MonteCarloStatus = Idle | Running | Completed | Cancelled | Error

typedecl MonteCarloResult

record MonteCarloStore =
  config :: MonteCarloConfig
  status :: MonteCarloStatus
  iterationsCompleted :: number
  iterationsTotal :: number
  progress :: number
  estimatedTimeRemaining :: "number option"
  result :: "MonteCarloResult option"
  error :: "string option"
  monteCarloId :: "string option"

text \<open>The literal \<^verbatim>\<open>0.3\<close> denotes the binary64 value nearest to three tenths.\<close>

definition DEFAULT_MC_CONFIG :: MonteCarloConfig where
  "DEFAULT_MC_CONFIG =
     \<lparr> numFarms = 5, numPackers = 2, numDistributionCenters = 3, numRetailers = 20,
       retailersWithDelisPct = binary64 (3 / 10), contaminationRate = 1, contaminationDurationDays = 7,
       pathogen = ''Salmonella'', inventoryStrategy = FIFO, dateWindowDays = 7,
       simulationDays = 90, interviewSuccessRate = 70, recordCollectionWindowDays = 14,
       numIterations = 1000, baseRandomSeed = None \<rparr>"

definition simConfigToMcConfig :: "SimulationConfig \<Rightarrow> PartialMonteCarloConfig" where
  "simConfigToMcConfig simConfig =
     \<lparr> optNumFarms = Some (SimulationConfig.numFarms simConfig),
       optNumPackers = Some (SimulationConfig.numPackers simConfig),
       optNumDistributionCenters = Some (SimulationConfig.numDistributionCenters simConfig),
       optNumRetailers = Some (SimulationConfig.numRetailers simConfig),
       optRetailersWithDelisPct = Some (SimulationConfig.retailersWithDelisPct simConfig),
       optContaminationRate = Some (SimulationConfig.contaminationRate simConfig),
       optContaminationDurationDays =
         Some (SimulationConfig.contaminationDurationDays simConfig),
       optPathogen = Some (SimulationConfig.pathogen simConfig),
       optInventoryStrategy = Some (SimulationConfig.inventoryStrategy simConfig),
       optDateWindowDays = Some (SimulationConfig.dateWindowDays simConfig),
       optSimulationDays = Some (SimulationConfig.simulationDays simConfig),
       optInterviewSuccessRate = Some (SimulationConfig.interviewSuccessRate simConfig),
       optRecordCollectionWindowDays =
         Some (SimulationConfig.recordCollectionWindowDays simConfig),
       optNumIterations = None,
       optBaseRandomSeed = None \<rparr>"

definition initialMonteCarloStore :: MonteCarloStore where
  "initialMonteCarloStore =
     \<lparr> config = DEFAULT_MC_CONFIG, status = Idle, iterationsCompleted = 0,
       iterationsTotal = 0, progress = 0, estimatedTimeRemaining = None, result = None,
       error = None, monteCarloId = None \<rparr>"

definition setConfig :: "PartialMonteCarloConfig \<Rightarrow> MonteCarloStore \<Rightarrow> MonteCarloStore" where
  "setConfig partial s = s\<lparr> config := spread (config s) partial \<rparr>"

definition syncFromSimulationConfig :: "SimulationConfig \<Rightarrow> MonteCarloStore \<Rightarrow> MonteCarloStore" where
  "syncFromSimulationConfig simConfig s =
     s\<lparr> config := spread (config s) (simConfigToMcConfig simConfig) \<rparr>"

text \<open>
  \<^verbatim>\<open>startMonteCarlo\<close> up to its first \<^verbatim>\<open>await\<close>: it reads the configuration, marks the
  store as running, and posts \<^verbatim>\<open>toApiConfig(config)\<close> to \<^verbatim>\<open>/monte-carlo/run\<close>. The pair is
  the store after the \<^verbatim>\<open>set\<close> and the body of the request.
\<close>

definition startMonteCarlo :: "MonteCarloStore \<Rightarrow> MonteCarloStore \<times> ApiConfig" where
  "startMonteCarlo s =
     (s\<lparr> status := Running, progress := 0, iterationsCompleted := 0,
         iterationsTotal := numIterations (config s), error := None, result := None,
         estimatedTimeRemaining := None \<rparr>,
      toApiConfig (config s))"

text \<open>
  components/monte-carlo/MonteCarloControls.tsx, the slider "Iterations": its thumb
  shows \<^verbatim>\<open>Math.min(config.numIterations, maxIterations)\<close> and a move to \<^verbatim>\<open>v\<close> calls
  \<^verbatim>\<open>setConfig({ numIterations: v })\<close>.
\<close>

definition iterationsSliderValue :: "ConfigStore \<Rightarrow> MonteCarloStore \<Rightarrow> number" where
  "iterationsSliderValue cs s = min (numIterations (config s)) (selectMaxMonteCarloIterations cs)"

definition iterationsSliderChange :: "number \<Rightarrow> MonteCarloStore \<Rightarrow> MonteCarloStore" where
  "iterationsSliderChange v s = setConfig (emptyPartial\<lparr> optNumIterations := Some v \<rparr>) s"

section \<open>api/types.ts: network types\<close>

datatype NodeType = Farm | Packer | DistributionCenter | Processor | Deli | Retailer

datatype FlowDirection = Forward | Backward

record LotInfo =
  tlc :: string
  createdAt :: string
  createdByNodeId :: string
  productCategory :: string
  isContaminated :: bool
  contaminationProbability :: number
  sourceTlcs :: "string list"
  sourceProbabilities :: "string \<rightharpoonup> number"

record NodeCaseCount =
  caseNodeId :: string
  caseNodeName :: string
  caseNodeType :: string
  caseCount :: number
  hospitalizedCount :: number

record SupplyChainEdge =
  edgeId :: string
  source :: string
  target :: string
  productCategories :: "string list"
  shipmentVolume :: number
  isActive :: "bool option"
  flowDirection :: "FlowDirection option"
  edgeProbability :: "number option"

text \<open>
  A property declared \<^verbatim>\<open>number\<close> holds at run time whatever the code stores in it. The
  one value other than a number that the code below can store is a member that a plain
  object inherits from \<^verbatim>\<open>Object.prototype\<close> (a function, or for \<^verbatim>\<open>__proto__\<close> the prototype
  object); it is recorded by the key it was read under.
\<close>

datatype JsValue = NumberValue number | InheritedMember string

text \<open>
  \<^verbatim>\<open>SupplyChainNode\<close>. The properties \<^verbatim>\<open>id\<close>, \<^verbatim>\<open>type\<close>, \<^verbatim>\<open>name\<close>, \<^verbatim>\<open>state\<close>, \<^verbatim>\<open>x\<close>, \<^verbatim>\<open>y\<close>,
  \<^verbatim>\<open>fx\<close> and \<^verbatim>\<open>fy\<close> carry the prefix \<open>node\<close> here. An optional property is an \<open>option\<close>
  (\<open>None\<close> for \<^verbatim>\<open>undefined\<close>); \<^verbatim>\<open>fx\<close> and \<^verbatim>\<open>fy\<close> may also be \<^verbatim>\<open>null\<close>.
  \<^verbatim>\<open>contaminationProbability\<close> is written by \<^verbatim>\<open>markContaminatedNodes\<close> from a property
  read and so has the type of what that read can return.
\<close>

record SupplyChainNode =
  nodeId :: string
  nodeType :: NodeType
  nodeName :: string
  city :: string
  nodeState :: string
  nodeX :: "number option"
  nodeY :: "number option"
  nodeFx :: "number option option"
  nodeFy :: "number option option"
  isContaminated :: "bool option"
  isContaminationSource :: "bool option"
  contaminationProbability :: "JsValue option"
  isInScope :: "bool option"
  scopeProbability :: "number option"

section \<open>store/networkStore.ts\<close>

record NetworkStore =
  nodes :: "SupplyChainNode list"
  edges :: "SupplyChainEdge list"
  lots :: "string \<rightharpoonup> LotInfo"
  nodeCaseCounts :: "string \<rightharpoonup> NodeCaseCount"
  selectedNodeId :: "string option"
  hoveredNodeId :: "string option"
  highlightedPath :: "string list"
  visibleNodeTypes :: "NodeType set"
  showContaminatedOnly :: bool
  showScopeOnly :: bool

text \<open>
  The property names every plain object inherits from \<^verbatim>\<open>Object.prototype\<close>.
\<close>

definition objectPrototypeMembers :: "string list" where
  "objectPrototypeMembers =
     [''constructor'', ''hasOwnProperty'', ''isPrototypeOf'', ''propertyIsEnumerable'',
      ''toLocaleString'', ''toString'', ''valueOf'', ''__proto__'', ''__defineGetter__'',
      ''__defineSetter__'', ''__lookupGetter__'', ''__lookupSetter__'']"

text \<open>
  The property read \<^verbatim>\<open>obj[key]\<close> on a \<^verbatim>\<open>Record<string, number>\<close>, a plain object (the
  default \<^verbatim>\<open>{}\<close>, an object literal, the result of \<^verbatim>\<open>Object.fromEntries\<close>): an own
  property gives its number; otherwise the lookup goes on to \<^verbatim>\<open>Object.prototype\<close> and
  gives the inherited member when the key names one; otherwise \<^verbatim>\<open>undefined\<close>.
\<close>

definition getProperty :: "(string \<rightharpoonup> number) \<Rightarrow> string \<Rightarrow> JsValue option" where
  "getProperty obj key =
     (case obj key of
        Some v \<Rightarrow> Some (NumberValue v)
      | None \<Rightarrow> if key \<in> set objectPrototypeMembers then Some (InheritedMember key) else None)"

text \<open>
  \<^verbatim>\<open>markContaminatedNodes(nodeIds, probabilities = {})\<close>. The second argument is
  optional; \<^verbatim>\<open>probabilities[node.id]\<close> is the property read above, and \<^verbatim>\<open>??\<close> replaces
  only \<^verbatim>\<open>undefined\<close> (a stored 0 is kept, and so is an inherited member).
\<close>

definition markContaminatedNodes ::
  "string list \<Rightarrow> (string \<rightharpoonup> number) option \<Rightarrow> NetworkStore \<Rightarrow> NetworkStore" where
  "markContaminatedNodes nodeIds probabilitiesArg s =
     (let probabilities = orElse probabilitiesArg Map.empty
      in s\<lparr> nodes :=
             map (\<lambda>node.
                    node\<lparr> isContaminated := Some (nodeId node \<in> set nodeIds),
                          contaminationProbability :=
                            Some (orElse (getProperty probabilities (nodeId node))
                                    (NumberValue (if nodeId node \<in> set nodeIds then 1 else 0))) \<rparr>)
                 (nodes s) \<rparr>)"

section \<open>Investigation Engine: identification outcome\<close>

datatype IdentificationOutcome = Yes | No | Inconclusive

text \<open>The fixed margin between the two best confidence scores, 5%.\<close>

definition IDENTIFICATION_MARGIN :: rat where
  "IDENTIFICATION_MARGIN = 5 / 100"

text \<open>
  Modelled from the spec: the Investigation Engine's classification of the
  identification outcome is not in the sources (the front end only displays the
  \<^verbatim>\<open>identification_outcome\<close> it receives). The spec, section 4.4 step 6: compare the top
  two ranked farms' confidence scores; if the true source farm is rank 1 and the margin
  exceeds the threshold the outcome is yes; if the true source is not rank 1 and the
  margin exceeds the threshold the outcome is no; if the margin is at most the
  threshold the outcome is inconclusive regardless of rank. The engine runs once per
  tracing mode; the arguments are the mode, the rank of the true source farm and the
  margin score1 - score2.
\<close>

definition identificationOutcome :: "TracingMode \<Rightarrow> nat \<Rightarrow> rat \<Rightarrow> IdentificationOutcome" where
  "identificationOutcome tracing sourceRank margin =
     (if sourceRank = 1 \<and> IDENTIFICATION_MARGIN < margin then Yes
      else if sourceRank \<noteq> 1 \<and> IDENTIFICATION_MARGIN < margin then No
      else Inconclusive)"

section \<open>Binary64 rounding\<close>

text \<open>
  What the rounding of the model does: \<open>roundHalfEven\<close> is within one half of its
  argument, \<open>floorLog2\<close> is the binary exponent, and \<open>binary64\<close> is within half a unit in
  the last place of the exact value.
\<close>

lemma roundHalfEven_nearest: "\<bar>of_int (roundHalfEven q) - q\<bar> \<le> 1 / 2"
proof -
  have "of_int \<lfloor>q\<rfloor> \<le> q" "q < of_int \<lfloor>q\<rfloor> + 1"
    by linarith+
  then show ?thesis
    by (auto simp: roundHalfEven_def Let_def)
qed

lemma floorLog2_bounds:
  assumes "0 < a"
  shows "2 powi floorLog2 a \<le> a \<and> a < 2 powi (floorLog2 a + 1)"
proof -
  obtain n d where nd: "quotient_of a = (n, d)" by (cases "quotient_of a")
  then have d: "0 < d" and a: "a = of_int n / of_int d"
    using quotient_of_denom_pos quotient_of_div by blast+
  with assms have n: "0 < n"
    by (simp add: zero_less_divide_iff)
  let ?k = "bitlen n - bitlen d"
  have bn: "2 ^ nat (bitlen n - 1) \<le> n" "n < 2 ^ nat (bitlen n)"
    using bitlen_bounds [OF n] by auto
  have bd: "2 ^ nat (bitlen d - 1) \<le> d" "d < 2 ^ nat (bitlen d)"
    using bitlen_bounds [OF d] by auto
  have ln: "1 \<le> bitlen n" and ld: "1 \<le> bitlen d"
    using n d by (simp_all add: bitlen_def floorlog_def)
  have rn: "(2::rat) powi (bitlen n - 1) \<le> of_int n" "of_int n < (2::rat) powi bitlen n"
  proof -
    have "(2::rat) powi (bitlen n - 1) = of_int (2 ^ nat (bitlen n - 1))"
      using ln by (simp add: power_int_def)
    also have "\<dots> \<le> of_int n"
      using bn(1) by (simp only: of_int_le_iff)
    finally show "(2::rat) powi (bitlen n - 1) \<le> of_int n" .
    have "of_int n < (of_int (2 ^ nat (bitlen n)) :: rat)"
      using bn(2) by (simp only: of_int_less_iff)
    also have "\<dots> = 2 powi bitlen n"
      using ln by (simp add: power_int_def)
    finally show "of_int n < (2::rat) powi bitlen n" .
  qed
  have rd: "(2::rat) powi (bitlen d - 1) \<le> of_int d" "of_int d < (2::rat) powi bitlen d"
  proof -
    have "(2::rat) powi (bitlen d - 1) = of_int (2 ^ nat (bitlen d - 1))"
      using ld by (simp add: power_int_def)
    also have "\<dots> \<le> of_int d"
      using bd(1) by (simp only: of_int_le_iff)
    finally show "(2::rat) powi (bitlen d - 1) \<le> of_int d" .
    have "of_int d < (of_int (2 ^ nat (bitlen d)) :: rat)"
      using bd(2) by (simp only: of_int_less_iff)
    also have "\<dots> = 2 powi bitlen d"
      using ld by (simp add: power_int_def)
    finally show "of_int d < (2::rat) powi bitlen d" .
  qed
  have pos: "\<And>i. (0::rat) < 2 powi i"
    by simp
  have up: "a < 2 powi (?k + 1)"
  proof -
    have "a < 2 powi bitlen n / 2 powi (bitlen d - 1)"
      unfolding a using rn(2) rd(1) n d pos
      by (intro frac_less) simp_all
    also have "\<dots> = 2 powi (?k + 1)"
      by (simp add: power_int_diff [symmetric] algebra_simps)
    finally show ?thesis .
  qed
  have lo: "2 powi (?k - 1) < a"
  proof -
    have "2 powi (?k - 1) = (2::rat) powi (bitlen n - 1) / 2 powi bitlen d"
      by (simp add: power_int_diff [symmetric] algebra_simps)
    also have "\<dots> < a"
      unfolding a using rn(1) rd(2) n d pos
      by (intro frac_less2) simp_all
    finally show ?thesis .
  qed
  show ?thesis
    using up lo by (auto simp: floorLog2_def nd Let_def)
qed


lemma floorLog2_unique:
  assumes "2 powi k \<le> a" and "a < 2 powi (k + 1)"
  shows "floorLog2 a = k"
proof -
  have "(0::rat) < 2 powi k" by simp
  with assms(1) have pos: "0 < a" by linarith
  let ?f = "floorLog2 a"
  from floorLog2_bounds [OF pos] have f: "2 powi ?f \<le> a" "a < 2 powi (?f + 1)"
    by simp_all
  have "(2::rat) powi k < 2 powi (?f + 1)"
    using assms(1) f(2) by linarith
  then have "k < ?f + 1"
    using power_int_increasing [of "?f + 1" k "2::rat"] by (cases "k < ?f + 1") auto
  moreover have "(2::rat) powi ?f < 2 powi (k + 1)"
    using assms(2) f(1) by linarith
  then have "?f < k + 1"
    using power_int_increasing [of "k + 1" ?f "2::rat"] by (cases "?f < k + 1") auto
  ultimately show ?thesis by linarith
qed

lemma binary64_nearest:
  assumes "q \<noteq> 0"
  shows "\<bar>binary64 q - q\<bar> \<le> 2 powi (max (floorLog2 \<bar>q\<bar>) (- 1022) - 53)"
proof -
  let ?e = "max (floorLog2 \<bar>q\<bar>) (- 1022) - 52"
  let ?m = "roundHalfEven (\<bar>q\<bar> / 2 powi ?e)"
  have p: "(0::rat) < 2 powi ?e" by simp
  have b: "binary64 q = sgn q * of_int ?m * 2 powi ?e"
    using assms by (simp add: binary64_def Let_def)
  have "binary64 q - q = sgn q * 2 powi ?e * (of_int ?m - \<bar>q\<bar> / 2 powi ?e)"
    unfolding b using p abs_mult_sgn [of q] by (simp add: algebra_simps)
  then have "\<bar>binary64 q - q\<bar> = 2 powi ?e * \<bar>of_int ?m - \<bar>q\<bar> / 2 powi ?e\<bar>"
    using assms by (simp add: abs_mult abs_sgn_eq)
  also have "\<dots> \<le> 2 powi ?e * (1 / 2)"
    using roundHalfEven_nearest [of "\<bar>q\<bar> / 2 powi ?e"] p
    by (intro mult_left_mono) simp_all
  also have "\<dots> = 2 powi (?e - 1)"
    by (simp add: power_int_diff)
  also have "?e - 1 = max (floorLog2 \<bar>q\<bar>) (- 1022) - 53"
    by simp
  finally show ?thesis .
qed

section \<open>Ranking of convergence results\<close>

text \<open>The comparator sort of \<^verbatim>\<open>setConvergenceResults\<close> is the stable sort on the negated score.\<close>

lemma insertBy_insort_key:
  "insertBy byConfidenceDesc a bs = insort_key (\<lambda>r. - confidenceScore r) a bs"
  by (induction bs) (simp_all add: byConfidenceDesc_def)

lemma arraySort_sort_key:
  "arraySort byConfidenceDesc xs = sort_key (\<lambda>r. - confidenceScore r) xs"
  by (induction xs) (simp_all add: arraySort_def insertBy_insort_key)

lemma sorted_neg_iff_desc:
  "sorted (map (\<lambda>r. - confidenceScore r) ys)
     \<longleftrightarrow> sorted_wrt (\<lambda>a b. confidenceScore b \<le> confidenceScore a) ys"
  by (induction ys) auto

text \<open>
  Claim C1, as amended. \<^verbatim>\<open>setConvergenceResults\<close> ranks the records in descending order
  of confidence score and nothing else: the ranked list is a rearrangement of the input,
  and records with the same confidence score keep the relative order they had in the
  input (no tie-break by exclusive-case count or by farm identifier; a
  \<^verbatim>\<open>ConvergenceResult\<close> has no exclusive-case count). These three properties determine
  the ranked list, so the order is unique for every input list.
\<close>

theorem C1_ranking_descending_stable:
  "sorted_wrt (\<lambda>a b. confidenceScore b \<le> confidenceScore a)
     (convergenceResults (setConvergenceResults results s))
   \<and> mset (convergenceResults (setConvergenceResults results s)) = mset results
   \<and> filter (\<lambda>r. confidenceScore r = k) (convergenceResults (setConvergenceResults results s))
       = filter (\<lambda>r. confidenceScore r = k) results
   \<and> (sorted_wrt (\<lambda>a b. confidenceScore b \<le> confidenceScore a) ys
        \<and> mset ys = mset results
        \<and> (\<forall>c. filter (\<lambda>r. confidenceScore r = c) ys
                 = filter (\<lambda>r. confidenceScore r = c) results)
      \<longrightarrow> ys = convergenceResults (setConvergenceResults results s))"
proof -
  let ?key = "\<lambda>r. - confidenceScore r"
  have out: "convergenceResults (setConvergenceResults results s) = sort_key ?key results"
    by (simp add: setConvergenceResults_def arraySort_sort_key)
  have desc: "sorted_wrt (\<lambda>a b. confidenceScore b \<le> confidenceScore a) (sort_key ?key results)"
    using sorted_sort_key [of ?key results] by (simp only: sorted_neg_iff_desc)
  have stable: "filter (\<lambda>r. confidenceScore r = k) (sort_key ?key results)
                  = filter (\<lambda>r. confidenceScore r = k) results"
    using sort_key_stable [of ?key "- k" results] by simp
  have uniq: "ys = sort_key ?key results"
    if srt: "sorted_wrt (\<lambda>a b. confidenceScore b \<le> confidenceScore a) ys"
      and perm: "mset ys = mset results"
      and stab: "\<forall>c. filter (\<lambda>r. confidenceScore r = c) ys
                      = filter (\<lambda>r. confidenceScore r = c) results"
  proof -
    have "sort_key ?key results = ys"
    proof (rule properties_for_sort_key)
      show "mset ys = mset results" by (rule perm)
      show "sorted (map ?key ys)" using srt by (simp only: sorted_neg_iff_desc)
      fix r
      have e: "(\<lambda>x. ?key r = ?key x) = (\<lambda>x. confidenceScore x = confidenceScore r)"
        by auto
      show "filter (\<lambda>x. ?key r = ?key x) ys = filter (\<lambda>x. ?key r = ?key x) results"
        unfolding e using stab by blast
    qed
    then show ?thesis by simp
  qed
  show ?thesis
    unfolding out using desc stable uniq by (simp add: mset_sort)
qed

text \<open>
  Claim C1, witness: two farms, the second with the higher score. The list with the
  higher score first meets the three conditions, and it is the ranked list.
\<close>

theorem C1_ranking_descending_stable_witness:
  "sorted_wrt (\<lambda>a b. confidenceScore b \<le> confidenceScore a)
     [\<lparr> farmId = ''farm-2'', farmName = ''Farm 2'', casesConverging = 3, tlcsConverging = [],
         convergenceProbability = 1, confidenceScore = 1 / 2 \<rparr>,
      \<lparr> farmId = ''farm-1'', farmName = ''Farm 1'', casesConverging = 1, tlcsConverging = [],
         convergenceProbability = 1, confidenceScore = 1 / 4 \<rparr>]
   \<and> mset
     [\<lparr> farmId = ''farm-2'', farmName = ''Farm 2'', casesConverging = 3, tlcsConverging = [],
         convergenceProbability = 1, confidenceScore = 1 / 2 \<rparr>,
      \<lparr> farmId = ''farm-1'', farmName = ''Farm 1'', casesConverging = 1, tlcsConverging = [],
         convergenceProbability = 1, confidenceScore = 1 / 4 \<rparr>]
     = mset
     [\<lparr> farmId = ''farm-1'', farmName = ''Farm 1'', casesConverging = 1, tlcsConverging = [],
         convergenceProbability = 1, confidenceScore = 1 / 4 \<rparr>,
      \<lparr> farmId = ''farm-2'', farmName = ''Farm 2'', casesConverging = 3, tlcsConverging = [],
         convergenceProbability = 1, confidenceScore = 1 / 2 \<rparr>]
   \<and> convergenceResults (setConvergenceResults
       [\<lparr> farmId = ''farm-1'', farmName = ''Farm 1'', casesConverging = 1, tlcsConverging = [],
           convergenceProbability = 1, confidenceScore = 1 / 4 \<rparr>,
        \<lparr> farmId = ''farm-2'', farmName = ''Farm 2'', casesConverging = 3, tlcsConverging = [],
           convergenceProbability = 1, confidenceScore = 1 / 2 \<rparr>]
       initialInvestigationStore)
     = [\<lparr> farmId = ''farm-2'', farmName = ''Farm 2'', casesConverging = 3, tlcsConverging = [],
           convergenceProbability = 1, confidenceScore = 1 / 2 \<rparr>,
        \<lparr> farmId = ''farm-1'', farmName = ''Farm 1'', casesConverging = 1, tlcsConverging = [],
           convergenceProbability = 1, confidenceScore = 1 / 4 \<rparr>]"
proof -
  let ?lo = "\<lparr> farmId = ''farm-1'', farmName = ''Farm 1'', casesConverging = 1,
               tlcsConverging = [], convergenceProbability = 1, confidenceScore = 1 / 4 \<rparr>"
  let ?hi = "\<lparr> farmId = ''farm-2'', farmName = ''Farm 2'', casesConverging = 3,
               tlcsConverging = [], convergenceProbability = 1, confidenceScore = 1 / 2 \<rparr>"
  have srt: "sorted_wrt (\<lambda>a b. confidenceScore b \<le> confidenceScore a) [?hi, ?lo]"
    by simp
  have perm: "mset [?hi, ?lo] = mset [?lo, ?hi]"
    by simp
  have stab: "\<forall>c. filter (\<lambda>r. confidenceScore r = c) [?hi, ?lo]
                  = filter (\<lambda>r. confidenceScore r = c) [?lo, ?hi]"
    by auto
  have "[?hi, ?lo] = convergenceResults (setConvergenceResults [?lo, ?hi] initialInvestigationStore)"
    using C1_ranking_descending_stable [of "[?lo, ?hi]" initialInvestigationStore 0 "[?hi, ?lo]"]
          srt perm stab
    by blast
  with srt perm show ?thesis by simp
qed

text \<open>
  Claim C1, counterexample to the tie-break: two records with the same confidence score
  come out in the order they went in, whichever farm identifier is first. A tie-break
  by farm identifier would give one order for both inputs.
\<close>

theorem C1_tie_order_counterexample:
  "map farmId (convergenceResults (setConvergenceResults
       [\<lparr> farmId = ''farm-2'', farmName = ''Farm 2'', casesConverging = 3, tlcsConverging = [],
           convergenceProbability = 1, confidenceScore = 1 / 2 \<rparr>,
        \<lparr> farmId = ''farm-1'', farmName = ''Farm 1'', casesConverging = 3, tlcsConverging = [],
           convergenceProbability = 1, confidenceScore = 1 / 2 \<rparr>]
       initialInvestigationStore)) = [''farm-2'', ''farm-1'']
   \<and> map farmId (convergenceResults (setConvergenceResults
       [\<lparr> farmId = ''farm-1'', farmName = ''Farm 1'', casesConverging = 3, tlcsConverging = [],
           convergenceProbability = 1, confidenceScore = 1 / 2 \<rparr>,
        \<lparr> farmId = ''farm-2'', farmName = ''Farm 2'', casesConverging = 3, tlcsConverging = [],
           convergenceProbability = 1, confidenceScore = 1 / 2 \<rparr>]
       initialInvestigationStore)) = [''farm-1'', ''farm-2'']"
  by (simp add: setConvergenceResults_def arraySort_def byConfidenceDesc_def)

section \<open>Identification outcome\<close>

text \<open>
  Claim C2. In either tracing mode and whatever the rank of the true source farm, a
  margin between the two best confidence scores of at most 5% gives the outcome
  inconclusive.
\<close>

theorem C2_margin_within_threshold_inconclusive:
  "margin \<le> 5 / 100 \<Longrightarrow> identificationOutcome tracing sourceRank margin = Inconclusive"
  by (simp add: identificationOutcome_def IDENTIFICATION_MARGIN_def)

text \<open>
  Claim C2, witness: a margin of exactly 5%, with the true source ranked first in
  deterministic mode and second in probabilistic mode.
\<close>

theorem C2_margin_within_threshold_inconclusive_witness:
  "(5 / 100 :: rat) \<le> 5 / 100
   \<and> identificationOutcome Deterministic 1 (5 / 100) = Inconclusive
   \<and> identificationOutcome Probabilistic 2 (5 / 100) = Inconclusive"
  using C2_margin_within_threshold_inconclusive [of "5 / 100" Deterministic 1]
        C2_margin_within_threshold_inconclusive [of "5 / 100" Probabilistic 2]
  by simp

section \<open>Monte Carlo store\<close>

text \<open>
  Claim C6. \<^verbatim>\<open>syncFromSimulationConfig\<close> replaces the thirteen shared parameters of the
  Monte Carlo configuration by the simulation configuration's values and changes
  nothing else: \<^verbatim>\<open>numIterations\<close>, \<^verbatim>\<open>baseRandomSeed\<close> and every other field of the store
  keep their values.
\<close>

theorem C6_sync_overwrites_shared_parameters:
  "syncFromSimulationConfig simConfig s =
     s\<lparr> config := (config s)
         \<lparr> numFarms := SimulationConfig.numFarms simConfig,
           numPackers := SimulationConfig.numPackers simConfig,
           numDistributionCenters := SimulationConfig.numDistributionCenters simConfig,
           numRetailers := SimulationConfig.numRetailers simConfig,
           retailersWithDelisPct := SimulationConfig.retailersWithDelisPct simConfig,
           contaminationRate := SimulationConfig.contaminationRate simConfig,
           contaminationDurationDays := SimulationConfig.contaminationDurationDays simConfig,
           pathogen := SimulationConfig.pathogen simConfig,
           inventoryStrategy := SimulationConfig.inventoryStrategy simConfig,
           dateWindowDays := SimulationConfig.dateWindowDays simConfig,
           simulationDays := SimulationConfig.simulationDays simConfig,
           interviewSuccessRate := SimulationConfig.interviewSuccessRate simConfig,
           recordCollectionWindowDays := SimulationConfig.recordCollectionWindowDays simConfig \<rparr> \<rparr>
   \<and> numIterations (config (syncFromSimulationConfig simConfig s)) = numIterations (config s)
   \<and> baseRandomSeed (config (syncFromSimulationConfig simConfig s)) = baseRandomSeed (config s)
   \<and> status (syncFromSimulationConfig simConfig s) = status s
   \<and> iterationsCompleted (syncFromSimulationConfig simConfig s) = iterationsCompleted s
   \<and> iterationsTotal (syncFromSimulationConfig simConfig s) = iterationsTotal s
   \<and> progress (syncFromSimulationConfig simConfig s) = progress s
   \<and> estimatedTimeRemaining (syncFromSimulationConfig simConfig s) = estimatedTimeRemaining s
   \<and> result (syncFromSimulationConfig simConfig s) = result s
   \<and> error (syncFromSimulationConfig simConfig s) = error s
   \<and> monteCarloId (syncFromSimulationConfig simConfig s) = monteCarloId s"
  by (simp add: syncFromSimulationConfig_def spread_def simConfigToMcConfig_def orElse_def)

text \<open>
  Claim C7, the code at a failing input. The operator's maximum is 500 iterations and
  the store is in its initial state: the slider's thumb is clamped to 500, the stored
  \<^verbatim>\<open>numIterations\<close> is still the built-in 1000, and that is the \<^verbatim>\<open>num_iterations\<close> posted
  by \<^verbatim>\<open>startMonteCarlo\<close>.
\<close>

theorem C7_default_iterations_exceed_maximum:
  "selectMaxMonteCarloIterations
     (fetchConfig (Some \<lparr> maxMonteCarloIterations = 500, defaultMonteCarloIterations = 100,
                          monteCarloEnabled = True \<rparr>) initialConfigStore) = 500
   \<and> iterationsSliderValue
       (fetchConfig (Some \<lparr> maxMonteCarloIterations = 500, defaultMonteCarloIterations = 100,
                            monteCarloEnabled = True \<rparr>) initialConfigStore)
       initialMonteCarloStore = 500
   \<and> num_iterations (snd (startMonteCarlo initialMonteCarloStore)) = 1000"
  by (simp add: selectMaxMonteCarloIterations_def fetchConfig_def initialConfigStore_def
      iterationsSliderValue_def startMonteCarlo_def initialMonteCarloStore_def
      DEFAULT_MC_CONFIG_def toApiConfig_def)

text \<open>
  A value chosen on the slider while the maximum is in force is submitted within the
  maximum; the excess above comes from values the slider did not choose.
\<close>

lemma slider_change_within_maximum:
  "v \<le> selectMaxMonteCarloIterations cs
   \<Longrightarrow> num_iterations (snd (startMonteCarlo (iterationsSliderChange v s)))
       \<le> selectMaxMonteCarloIterations cs"
  by (simp add: startMonteCarlo_def iterationsSliderChange_def setConfig_def spread_def
      emptyPartial_def orElse_def toApiConfig_def)

section \<open>Animation cursor\<close>

text \<open>
  Claim C8, the code at a failing input. On the initial store, where both step lists
  are empty and \<^verbatim>\<open>totalSteps\<close> is 0, \<^verbatim>\<open>stepForward\<close> sets \<^verbatim>\<open>currentStep\<close> to
  \<^verbatim>\<open>Math.min(0 + 1, 0 - 1)\<close>, which is \<open>- 1\<close>: the cursor leaves the range.
\<close>

theorem C8_stepForward_on_empty_store:
  "totalSteps (dispatchAll [StepForward] initialInvestigationStore) = 0
   \<and> currentStep (dispatchAll [StepForward] initialInvestigationStore) = - 1
   \<and> \<not> stepInRange (dispatchAll [StepForward] initialInvestigationStore)"
  by (simp add: stepForward_def initialInvestigationStore_def stepInRange_def)

text \<open>
  The upper bound is kept by every action, and so is the lower bound except by
  \<^verbatim>\<open>stepForward\<close> on a store without steps.
\<close>

lemma dispatch_keeps_upper_bound:
  "0 \<le> totalSteps s \<Longrightarrow> currentStep s \<le> max 0 (totalSteps s - 1)
   \<Longrightarrow> 0 \<le> totalSteps (dispatch a s)
       \<and> currentStep (dispatch a s) \<le> max 0 (totalSteps (dispatch a s) - 1)"
  by (cases a)
     (auto simp: loadInvestigationData_def stepForward_def stepBackward_def goToStep_def
        reset_def)

lemma dispatch_keeps_lower_bound:
  "0 \<le> currentStep s \<Longrightarrow> a \<noteq> StepForward \<or> 1 \<le> totalSteps s
   \<Longrightarrow> 0 \<le> currentStep (dispatch a s)"
  by (cases a)
     (auto simp: loadInvestigationData_def stepForward_def stepBackward_def goToStep_def
        reset_def)

section \<open>Configuration round trip\<close>

text \<open>
  The request mapping followed by the response mapping returns every field as it was,
  except that \<^verbatim>\<open>interviewSuccessRate\<close> has gone through a binary64 division by 100 and a
  binary64 multiplication by 100.
\<close>

lemma roundtrip_fields:
  "getResultConfig (toApiConfig c)
     = c\<lparr> interviewSuccessRate := fmul (fdiv (interviewSuccessRate c) 100) 100 \<rparr>"
  by (simp add: getResultConfig_def toApiConfig_def)

text \<open>The default rate of 70 comes back as 70: \<open>0.7 * 100\<close> rounds to 70.\<close>

lemma roundtrip_default_config:
  "getResultConfig (toApiConfig DEFAULT_MC_CONFIG) = DEFAULT_MC_CONFIG"
proof -
  have "fmul (fdiv 70 100) 100 = 70"
    by code_simp
  then show ?thesis
    by (simp add: roundtrip_fields) (simp add: DEFAULT_MC_CONFIG_def)
qed

text \<open>
  Claim C9, the code at a failing input. An interview success rate of 55 (a value of the
  configuration panel's slider) is sent as the binary64 value nearest to 0.55; that
  value times 100 lies above 55 by more than half a unit in the last place and rounds
  to \<open>55 + 2\<^sup>-\<^sup>4\<^sup>7\<close>, which JavaScript prints as \<^verbatim>\<open>55.00000000000001\<close>. The
  configuration that comes back is not the one that was sent.
\<close>

theorem C9_roundtrip_changes_rate_55:
  "interviewSuccessRate
     (getResultConfig (toApiConfig (DEFAULT_MC_CONFIG\<lparr> interviewSuccessRate := 55 \<rparr>)))
     = 55 + 1 / 2 ^ 47
   \<and> getResultConfig (toApiConfig (DEFAULT_MC_CONFIG\<lparr> interviewSuccessRate := 55 \<rparr>))
       \<noteq> DEFAULT_MC_CONFIG\<lparr> interviewSuccessRate := 55 \<rparr>"
proof -
  have r: "fmul (fdiv 55 100) 100 = 55 + 1 / 2 ^ 47"
    by code_simp
  have i: "interviewSuccessRate
             (getResultConfig (toApiConfig (DEFAULT_MC_CONFIG\<lparr> interviewSuccessRate := 55 \<rparr>)))
           = 55 + 1 / 2 ^ 47"
    by (simp add: getResultConfig_def toApiConfig_def r)
  have "interviewSuccessRate (DEFAULT_MC_CONFIG\<lparr> interviewSuccessRate := 55 \<rparr>) \<noteq> 55 + 1 / 2 ^ 47"
    by simp
  with i show ?thesis by metis
qed

section \<open>Contamination marking\<close>

text \<open>
  \<^verbatim>\<open>markContaminatedNodes\<close> keeps the nodes and their order; on every node
  \<^verbatim>\<open>isContaminated\<close> becomes whether the node's id is in the list; every property of a
  node other than \<^verbatim>\<open>isContaminated\<close> and \<^verbatim>\<open>contaminationProbability\<close>, and every other
  field of the store, is unchanged.
\<close>

lemma markContaminatedNodes_frame:
  "map isContaminated (nodes (markContaminatedNodes nodeIds probabilities s))
     = map (\<lambda>node. Some (nodeId node \<in> set nodeIds)) (nodes s)
   \<and> map nodeId (nodes (markContaminatedNodes nodeIds probabilities s)) = map nodeId (nodes s)
   \<and> map nodeType (nodes (markContaminatedNodes nodeIds probabilities s)) = map nodeType (nodes s)
   \<and> map nodeName (nodes (markContaminatedNodes nodeIds probabilities s)) = map nodeName (nodes s)
   \<and> map city (nodes (markContaminatedNodes nodeIds probabilities s)) = map city (nodes s)
   \<and> map nodeState (nodes (markContaminatedNodes nodeIds probabilities s)) = map nodeState (nodes s)
   \<and> map nodeX (nodes (markContaminatedNodes nodeIds probabilities s)) = map nodeX (nodes s)
   \<and> map nodeY (nodes (markContaminatedNodes nodeIds probabilities s)) = map nodeY (nodes s)
   \<and> map nodeFx (nodes (markContaminatedNodes nodeIds probabilities s)) = map nodeFx (nodes s)
   \<and> map nodeFy (nodes (markContaminatedNodes nodeIds probabilities s)) = map nodeFy (nodes s)
   \<and> map isContaminationSource (nodes (markContaminatedNodes nodeIds probabilities s))
     = map isContaminationSource (nodes s)
   \<and> map isInScope (nodes (markContaminatedNodes nodeIds probabilities s)) = map isInScope (nodes s)
   \<and> map scopeProbability (nodes (markContaminatedNodes nodeIds probabilities s))
     = map scopeProbability (nodes s)
   \<and> markContaminatedNodes nodeIds probabilities s
     = s\<lparr> nodes := nodes (markContaminatedNodes nodeIds probabilities s) \<rparr>"
  by (simp add: markContaminatedNodes_def Let_def comp_def)

text \<open>
  The probability written on the node at position \<open>i\<close>. When the supplied map has a
  value for the node's id, that value is written. When it has none (or no map is
  supplied) and the id is not the name of a member of \<^verbatim>\<open>Object.prototype\<close>, 1 is written
  for a listed node and 0 for an unlisted one.
\<close>

lemma markContaminatedNodes_probability:
  assumes "i < length (nodes s)"
  shows "(probabilities = Some m \<and> m (nodeId (nodes s ! i)) = Some p
           \<longrightarrow> contaminationProbability (nodes (markContaminatedNodes nodeIds probabilities s) ! i)
                 = Some (NumberValue p))
       \<and> ((probabilities = None \<or> (probabilities = Some m \<and> m (nodeId (nodes s ! i)) = None))
            \<and> nodeId (nodes s ! i) \<notin>
                {''constructor'', ''hasOwnProperty'', ''isPrototypeOf'', ''propertyIsEnumerable'',
                 ''toLocaleString'', ''toString'', ''valueOf'', ''__proto__'',
                 ''__defineGetter__'', ''__defineSetter__'', ''__lookupGetter__'',
                 ''__lookupSetter__''}
           \<longrightarrow> contaminationProbability (nodes (markContaminatedNodes nodeIds probabilities s) ! i)
                 = Some (NumberValue (if nodeId (nodes s ! i) \<in> set nodeIds then 1 else 0)))"
proof -
  have own: "contaminationProbability (nodes (markContaminatedNodes nodeIds (Some m) s) ! i)
               = Some (NumberValue p)"
    if "m (nodeId (nodes s ! i)) = Some p"
    using assms that
    by (simp add: markContaminatedNodes_def Let_def orElse_def getProperty_def)
  have absent: "getProperty (orElse probabilities Map.empty) (nodeId (nodes s ! i)) = None"
    if "probabilities = None \<or> (probabilities = Some m \<and> m (nodeId (nodes s ! i)) = None)"
      and "nodeId (nodes s ! i) \<notin> set objectPrototypeMembers"
    using that by (auto simp: getProperty_def orElse_def)
  have dflt: "contaminationProbability (nodes (markContaminatedNodes nodeIds probabilities s) ! i)
                = Some (NumberValue (if nodeId (nodes s ! i) \<in> set nodeIds then 1 else 0))"
    if "getProperty (orElse probabilities Map.empty) (nodeId (nodes s ! i)) = None"
    using assms that
    by (simp add: markContaminatedNodes_def Let_def orElse_def)
  have names: "set objectPrototypeMembers =
                 {''constructor'', ''hasOwnProperty'', ''isPrototypeOf'', ''propertyIsEnumerable'',
                  ''toLocaleString'', ''toString'', ''valueOf'', ''__proto__'',
                  ''__defineGetter__'', ''__defineSetter__'', ''__lookupGetter__'',
                  ''__lookupSetter__''}"
    by (simp add: objectPrototypeMembers_def)
  show ?thesis
    using own absent dflt unfolding names by blast
qed


end
